theory Spec2Isabelle
  imports Complex_Main "HOL-Library.Word"
begin

section \<open>JavaScript values\<close>

text \<open>
  A JavaScript string is a sequence of 16-bit code units. \<open>js\<close> turns an ASCII literal
  into such a string, so that inputs can be written readably.
\<close>

type_synonym jsstring = "16 word list"

definition js :: "string \<Rightarrow> jsstring" where
  "js s = map of_char s"

text \<open>
  The numbers \<open>JSON.parse\<close> can give: a finite number (\<open>Finite 0\<close> is the positive
  zero), the negative zero (from \<open>-0\<close>), and the two infinities (from a literal too
  large for a double, such as \<open>1e999\<close>).
\<close>

datatype jsnumber = Finite rat | NegZero | PosInfinity | NegInfinity

text \<open>
  JSON values over a type of numbers. A value in memory, as \<open>JSON.parse\<close> gives it for a
  request or for the document, is a \<open>jsvalue\<close>. The value a text written by
  \<open>JSON.stringify\<close> denotes has finite numbers only: a \<open>rat json\<close>. \<open>undefined\<close>, the
  value of a field that is missing, is \<open>None\<close> of \<open>jsvalue option\<close>.
\<close>

datatype 'n json =
    JNull
  | JBool bool
  | JNum 'n
  | JStr jsstring
  | JArr "'n json list"
  | JObj "(jsstring \<times> 'n json) list"

type_synonym jsvalue = "jsnumber json"

text \<open>
  What \<open>JSON.stringify\<close> writes for a value: an infinite number is written as \<open>null\<close>,
  the negative zero as \<open>0\<close>, everything else as it is.
\<close>

primrec stringified :: "jsvalue \<Rightarrow> rat json" where
  "stringified JNull = JNull"
| "stringified (JBool b) = JBool b"
| "stringified (JNum n) =
     (case n of
        Finite r \<Rightarrow> JNum r
      | NegZero \<Rightarrow> JNum 0
      | PosInfinity \<Rightarrow> JNull
      | NegInfinity \<Rightarrow> JNull)"
| "stringified (JStr s) = JStr s"
| "stringified (JArr xs) = JArr (map stringified xs)"
| "stringified (JObj kvs) = JObj (map (map_prod id stringified) kvs)"

text \<open>What \<open>JSON.parse\<close> reads from a text that \<open>JSON.stringify\<close> wrote.\<close>

definition readValue :: "rat json \<Rightarrow> jsvalue" where
  "readValue = map_json Finite"

text \<open>JavaScript's truthiness, as \<open>!jsonData\<close> tests it.\<close>

fun truthy :: "jsvalue \<Rightarrow> bool" where
  "truthy JNull = False"
| "truthy (JBool b) = b"
| "truthy (JNum n) = (n \<noteq> Finite 0 \<and> n \<noteq> NegZero)"
| "truthy (JStr s) = (s \<noteq> [])"
| "truthy (JArr xs) = True"
| "truthy (JObj kvs) = True"

text \<open>
  \<open>String.prototype.trim\<close> strips white space and line terminators from both ends:
  TAB, LF, VT, FF, CR, SP, NBSP, the Unicode space separators, LS, PS and ZWNBSP.
\<close>

definition isWhiteSpace :: "16 word \<Rightarrow> bool" where
  "isWhiteSpace c = (c \<in> set [0x0009, 0x000A, 0x000B, 0x000C, 0x000D, 0x0020, 0x00A0,
      0x1680, 0x2000, 0x2001, 0x2002, 0x2003, 0x2004, 0x2005, 0x2006, 0x2007, 0x2008,
      0x2009, 0x200A, 0x2028, 0x2029, 0x202F, 0x205F, 0x3000, 0xFEFF])"

definition trim :: "jsstring \<Rightarrow> jsstring" where
  "trim s = rev (dropWhile isWhiteSpace (rev (dropWhile isWhiteSpace s)))"

text \<open>
  The functions of the runtime that the handlers call and that are not code of this
  repository. Each one that can throw returns \<open>None\<close> where it throws:
  \<open>JSON.parse\<close> (SyntaxError), \<open>encodeURIComponent\<close> (URIError on a lone surrogate).
  \<open>Date_parse\<close> is the time value, in milliseconds, that \<open>new Date(string)\<close> holds,
  \<open>None\<close> for an invalid date (NaN).
\<close>

record platform =
  JSON_parse :: "jsstring \<Rightarrow> jsvalue option"
  Date_parse :: "jsstring \<Rightarrow> int option"
  toISOString :: "int \<Rightarrow> jsstring"
  encodeURIComponent :: "jsstring \<Rightarrow> jsstring option"

section \<open>The stored document and the files around it\<close>

record 'n mapping =
  key :: jsstring
  data :: "'n json"
  storedDate :: jsstring

text \<open>
  \<open>dynamicConfig.json\<close> is absent (ENOENT), or reading it raises another error (an I/O
  error, text that is not JSON, a document without a \<open>mappings\<close> array), or it holds
  \<open>{ mappings: [...] }\<close> with well-formed entries, as \<open>JSON.stringify\<close> writes them:
  the numbers in it are finite.
\<close>

datatype cfile = Missing | Unreadable | Stored "rat mapping list"

text \<open>
  The errors that reach a \<open>catch\<close>: a failed read or write of a file, the URIError of
  \<open>encodeURIComponent\<close>, and the TypeError of destructuring a request body that is
  \<open>undefined\<close>.
\<close>

datatype err = ReadError | WriteError | URIError | FileError | TypeError

datatype console_msg = RequestInfo | CleanedUp nat | CleanupError err | LogWriteFailed

text \<open>A Mapping as it is written to the document, and as it is read from it.\<close>

definition writeMapping :: "jsnumber mapping \<Rightarrow> rat mapping" where
  "writeMapping m = \<lparr>key = key m, data = stringified (data m), storedDate = storedDate m\<rparr>"

definition readMapping :: "rat mapping \<Rightarrow> jsnumber mapping" where
  "readMapping m = \<lparr>key = key m, data = readValue (data m), storedDate = storedDate m\<rparr>"

text \<open>
  \<open>disk_ok\<close> says whether \<open>fs.writeFile\<close> on the document succeeds (a failed write
  leaves the document as it was), \<open>errlog_ok\<close> whether \<open>fs.appendFile\<close> on
  \<open>errorLogger.txt\<close> does. \<open>errlog\<close> is that file, one entry per error, and
  \<open>console\<close> what was printed.
\<close>

record world =
  cfg :: cfile
  disk_ok :: bool
  errlog_ok :: bool
  errlog :: "err list"
  console :: "console_msg list"

text \<open>
  \<open>writeConfigFile\<close> writes \<open>JSON.stringify\<close> of the Mappings it is given, and
  \<open>readConfigFile\<close> gives the Mappings that \<open>JSON.parse\<close> reads from the document.
\<close>

definition writeConfigFile :: "jsnumber mapping list \<Rightarrow> world \<Rightarrow> (err + unit) \<times> world" where
  "writeConfigFile ms w =
     (if disk_ok w then (Inr (), w\<lparr>cfg := Stored (map writeMapping ms)\<rparr>)
      else (Inl WriteError, w))"

definition readConfigFile :: "world \<Rightarrow> (err + jsnumber mapping list) \<times> world" where
  "readConfigFile w =
     (case cfg w of
        Stored ms \<Rightarrow> (Inr (map readMapping ms), w)
      | Missing \<Rightarrow>
          (case writeConfigFile [] w of
             (Inl e, w1) \<Rightarrow> (Inl e, w1)
           | (Inr u, w1) \<Rightarrow> (Inr [], w1))
      | Unreadable \<Rightarrow> (Inl ReadError, w))"

text \<open>
  \<open>logError\<close> appends the error to the error log; when that fails it prints to the
  console instead, and it never throws. The time stamp of the entry is left out.
\<close>

definition logError :: "err \<Rightarrow> world \<Rightarrow> world" where
  "logError e w =
     (if errlog_ok w then w\<lparr>errlog := errlog w @ [e]\<rparr>
      else w\<lparr>console := console w @ [LogWriteFailed]\<rparr>)"

text \<open>A deployment that has not stored anything yet: no document, working disks.\<close>

definition initialWorld :: world where
  "initialWorld = \<lparr>cfg = Missing, disk_ok = True, errlog_ok = True, errlog = [], console = []\<rparr>"

section \<open>Responses\<close>

text \<open>
  The bodies the handlers send, as the values handed to \<open>res.json\<close>:
  \<open>{success: false, message}\<close>, the answer of a put (key and accessUrl), the answer of a
  get (key, data, storedDate), \<open>{error}\<close> of the static-file handler, and the bytes of a
  file.
\<close>

datatype payload =
    Failure string
  | Saved jsstring jsstring
  | Found jsstring jsvalue jsstring
  | ErrorOnly string
  | FileBytes "8 word list"

datatype reply = Reply (status: nat) (payload: payload)

section \<open>setDynamicConfig\<close>

text \<open>
  The fields \<open>key\<close> and \<open>data\<close> of \<open>req.body\<close>. A body that is an array has neither.
  The handlers take \<open>req.body\<close> itself as a \<open>body option\<close>: \<open>None\<close> is a request
  whose body no parser read, which leaves \<open>req.body\<close> \<open>undefined\<close>.
\<close>

record body =
  body_key :: "jsvalue option"
  body_data :: "jsvalue option"

text \<open>\<open>Array.prototype.findIndex\<close>; \<open>None\<close> stands for the result \<open>-1\<close>.\<close>

fun findIndex :: "('a \<Rightarrow> bool) \<Rightarrow> 'a list \<Rightarrow> nat option" where
  "findIndex p [] = None"
| "findIndex p (x # xs) = (if p x then Some 0 else map_option Suc (findIndex p xs))"

text \<open>\<open>typeof jsonData === "string" ? JSON.parse(jsonData) : jsonData\<close>\<close>

fun parseData :: "platform \<Rightarrow> jsvalue \<Rightarrow> jsvalue option" where
  "parseData P (JStr s) = JSON_parse P s"
| "parseData P JNull = Some JNull"
| "parseData P (JBool b) = Some (JBool b)"
| "parseData P (JNum n) = Some (JNum n)"
| "parseData P (JArr xs) = Some (JArr xs)"
| "parseData P (JObj kvs) = Some (JObj kvs)"

text \<open>
  The handler's \<open>try\<close> block from \<open>readConfigFile\<close> on, for a key and data that passed
  validation; \<open>Inl\<close> is an error thrown to the \<open>catch\<close>. \<open>now\<close> is the clock reading of
  \<open>new Date()\<close>. The search compares the stored keys with the key as received, the new
  Mapping holds the trimmed key.
\<close>

definition saveMapping ::
  "platform \<Rightarrow> int \<Rightarrow> jsstring \<Rightarrow> jsvalue \<Rightarrow> world \<Rightarrow> (err + reply) \<times> world" where
  "saveMapping P now k parsedData w =
     (case readConfigFile w of
        (Inl e, w1) \<Rightarrow> (Inl e, w1)
      | (Inr mappings, w1) \<Rightarrow>
          (let existingIndex = findIndex (\<lambda>m. key m = k) mappings;
               newMapping = \<lparr>key = trim k, data = parsedData,
                               storedDate = toISOString P now\<rparr>;
               mappings' = (case existingIndex of
                              Some i \<Rightarrow> mappings[i := newMapping]
                            | None \<Rightarrow> mappings @ [newMapping])
           in case writeConfigFile mappings' w1 of
                (Inl e, w2) \<Rightarrow> (Inl e, w2)
              | (Inr u, w2) \<Rightarrow>
                  (case encodeURIComponent P (trim k) of
                     None \<Rightarrow> (Inl URIError, w2)
                   | Some enc \<Rightarrow>
                       (Inr (Reply 200 (Saved (trim k) (js ''/getData?id='' @ enc))), w2))))"

definition keyRequired :: reply where
  "keyRequired = Reply 400 (Failure ''Key is required and must be a non-empty string'')"

definition dataRequired :: reply where
  "dataRequired = Reply 400 (Failure ''Data is required'')"

definition invalidJson :: reply where
  "invalidJson = Reply 400 (Failure ''Invalid JSON data provided'')"

definition saveFailed :: reply where
  "saveFailed = Reply 500 (Failure ''An error occurred while saving data'')"

text \<open>
  The handler after its first line, for a body that is there: the validation, and the
  \<open>try\<close> block with its \<open>catch\<close>.
\<close>

definition putBody :: "platform \<Rightarrow> int \<Rightarrow> body \<Rightarrow> world \<Rightarrow> reply \<times> world" where
  "putBody P now b w =
     (case body_key b of
        Some (JStr k) \<Rightarrow>
          if k = [] \<or> trim k = [] then (keyRequired, w)
          else (case body_data b of
                  None \<Rightarrow> (dataRequired, w)
                | Some jsonData \<Rightarrow>
                    if truthy jsonData then
                      (case parseData P jsonData of
                         None \<Rightarrow> (invalidJson, w)
                       | Some parsedData \<Rightarrow>
                           (case saveMapping P now k parsedData w of
                              (Inr r, w1) \<Rightarrow> (r, w1)
                            | (Inl e, w1) \<Rightarrow> (saveFailed, logError e w1)))
                    else (dataRequired, w))
      | _ \<Rightarrow> (keyRequired, w))"

text \<open>
  The handler prints the addresses of the request, then destructures \<open>req.body\<close> inside
  the \<open>try\<close>: for a body that is \<open>undefined\<close> this throws a TypeError, which the
  \<open>catch\<close> logs and answers with status 500.
\<close>

definition setDynamicConfig ::
  "platform \<Rightarrow> int \<Rightarrow> body option \<Rightarrow> world \<Rightarrow> reply \<times> world" where
  "setDynamicConfig P now req w =
     (let w0 = w\<lparr>console := console w @ [RequestInfo]\<rparr>
      in case req of
           None \<Rightarrow> (saveFailed, logError TypeError w0)
         | Some b \<Rightarrow> putBody P now b w0)"

section \<open>getDynamicConfigData\<close>

definition idRequired :: reply where
  "idRequired = Reply 400 (Failure ''Query parameter 'id' is required'')"

definition dataNotFound :: reply where
  "dataNotFound = Reply 404 (Failure ''Data not found. Please check the ID and try again.'')"

definition getFailed :: reply where
  "getFailed = Reply 500 (Failure ''An error occurred while retrieving data'')"

text \<open>\<open>qid\<close> is \<open>req.query.id\<close>: a string, an array or object of the query parser, or missing.\<close>

definition getDynamicConfigData :: "jsvalue option \<Rightarrow> world \<Rightarrow> reply \<times> world" where
  "getDynamicConfigData qid w =
     (case qid of
        Some (JStr i) \<Rightarrow>
          if i = [] \<or> trim i = [] then (idRequired, w)
          else (case readConfigFile w of
                  (Inl e, w1) \<Rightarrow> (getFailed, logError e w1)
                | (Inr mappings, w1) \<Rightarrow>
                    (case find (\<lambda>m. key m = trim i) mappings of
                       None \<Rightarrow> (dataNotFound, w1)
                     | Some m \<Rightarrow> (Reply 200 (Found (key m) (data m) (storedDate m)), w1)))
      | _ \<Rightarrow> (idRequired, w))"

section \<open>removeDayOldData\<close>

text \<open>
  \<open>compareDateInDays\<close>: the age in days, \<open>None\<close> for NaN (an invalid date). \<open>now\<close> is the
  clock reading of \<open>new Date()\<close>, in milliseconds. The quotient is the exact one; the
  double the code computes is its rounding, which is on the same side of 1: time values
  are integers, so a quotient below 1 is at most \<open>1 - 1 / 86400000\<close>.
\<close>

definition compareDateInDays :: "platform \<Rightarrow> int \<Rightarrow> jsstring \<Rightarrow> rat option" where
  "compareDateInDays P now dateString =
     (case Date_parse P dateString of
        None \<Rightarrow> None
      | Some date \<Rightarrow> Some (of_int (now - date) / (1000 * 60 * 60 * 24)))"

text \<open>The callback of the filter: \<open>compareDateInDays(mapping.storedDate) < 1\<close>, false on NaN.\<close>

definition notDayOld :: "platform \<Rightarrow> int \<Rightarrow> 'n mapping \<Rightarrow> bool" where
  "notDayOld P now m =
     (case compareDateInDays P now (storedDate m) of None \<Rightarrow> False | Some age \<Rightarrow> age < 1)"

text \<open>
  \<open>config.mappings.filter(...)\<close>. Every call of the callback reads the clock anew:
  \<open>clock i\<close> is the reading taken for the entry at index \<open>i\<close>.
\<close>

fun filterMappings ::
  "platform \<Rightarrow> (nat \<Rightarrow> int) \<Rightarrow> nat \<Rightarrow> 'n mapping list \<Rightarrow> 'n mapping list" where
  "filterMappings P clock i [] = []"
| "filterMappings P clock i (m # ms) =
     (if notDayOld P (clock i) m then m # filterMappings P clock (Suc i) ms
      else filterMappings P clock (Suc i) ms)"

text \<open>The \<open>try\<close> block of the middleware up to its call of \<open>next\<close>.\<close>

definition cleanUp :: "platform \<Rightarrow> (nat \<Rightarrow> int) \<Rightarrow> world \<Rightarrow> (err + unit) \<times> world" where
  "cleanUp P clock w =
     (case readConfigFile w of
        (Inl e, w1) \<Rightarrow> (Inl e, w1)
      | (Inr mappings, w1) \<Rightarrow>
          (let filteredMappings = filterMappings P clock 0 mappings
           in if length filteredMappings \<noteq> length mappings then
                (case writeConfigFile filteredMappings w1 of
                   (Inl e, w2) \<Rightarrow> (Inl e, w2)
                 | (Inr u, w2) \<Rightarrow>
                     (Inr (), w2\<lparr>console := console w2 @
                        [CleanedUp (length mappings - length filteredMappings)]\<rparr>))
              else (Inr (), w1)))"

text \<open>
  How a middleware ends: it calls \<open>next()\<close>, or its promise rejects with an error and the
  request is never handed on.
\<close>

datatype outcome = Next | Rejected err

definition removeDayOldData :: "platform \<Rightarrow> (nat \<Rightarrow> int) \<Rightarrow> world \<Rightarrow> outcome \<times> world" where
  "removeDayOldData P clock w =
     (case cleanUp P clock w of
        (Inr u, w1) \<Rightarrow> (Next, w1)
      | (Inl e, w1) \<Rightarrow>
          (let w2 = logError e w1
           in (Next, w2\<lparr>console := console w2 @ [CleanupError e]\<rparr>)))"

section \<open>serveStaticFile\<close>

text \<open>
  Node's \<open>path.join\<close> and \<open>path.normalize\<close> on POSIX: the arguments are joined with
  \<open>/\<close>, empty segments and \<open>.\<close> are dropped, \<open>..\<close> removes the segment before it
  (at the root of an absolute path it is dropped, at the start of a relative path it is
  kept), and a trailing \<open>/\<close> is kept.
\<close>

definition slash :: "16 word" where
  "slash = 0x2F"

fun splitPath :: "jsstring \<Rightarrow> jsstring list" where
  "splitPath [] = [[]]"
| "splitPath (c # cs) =
     (if c = slash then [] # splitPath cs
      else (case splitPath cs of [] \<Rightarrow> [[c]] | s # ss \<Rightarrow> (c # s) # ss))"

text \<open>\<open>normalizeString\<close>; \<open>acc\<close> holds the segments kept so far, the last one first.\<close>

fun normalizeString :: "bool \<Rightarrow> jsstring list \<Rightarrow> jsstring list \<Rightarrow> jsstring list" where
  "normalizeString allowAboveRoot acc [] = rev acc"
| "normalizeString allowAboveRoot acc (s # ss) =
     (if s = [] \<or> s = js ''.'' then normalizeString allowAboveRoot acc ss
      else if s = js ''..'' then
        (case acc of
           [] \<Rightarrow> normalizeString allowAboveRoot (if allowAboveRoot then [s] else []) ss
         | a # as \<Rightarrow>
             if a = js ''..'' then normalizeString allowAboveRoot (s # acc) ss
             else normalizeString allowAboveRoot as ss)
      else normalizeString allowAboveRoot (s # acc) ss)"

fun joinSegments :: "jsstring list \<Rightarrow> jsstring" where
  "joinSegments [] = []"
| "joinSegments [s] = s"
| "joinSegments (s # t # ss) = s @ slash # joinSegments (t # ss)"

definition normalize :: "jsstring \<Rightarrow> jsstring" where
  "normalize p =
     (case p of
        [] \<Rightarrow> js ''.''
      | c # cs \<Rightarrow>
          (let isAbsolute = (c = slash);
               trailingSeparator = (last p = slash);
               res = joinSegments (normalizeString (\<not> isAbsolute) [] (splitPath p))
           in if res = [] then
                (if isAbsolute then [slash]
                 else if trailingSeparator then js ''./'' else js ''.'')
              else (if isAbsolute then [slash] else [])
                   @ res @ (if trailingSeparator then [slash] else [])))"

definition path_join :: "jsstring \<Rightarrow> jsstring \<Rightarrow> jsstring" where
  "path_join a b =
     (if a = [] then normalize b
      else if b = [] then normalize a
      else normalize (a @ slash # b))"

text \<open>\<open>String.prototype.startsWith\<close>\<close>

definition startsWith :: "jsstring \<Rightarrow> jsstring \<Rightarrow> bool" where
  "startsWith s p = (take (length p) s = p)"

text \<open>What \<open>fs.readFile\<close> does at a path: the bytes, ENOENT, or another error.\<close>

datatype fileRead = FileData "8 word list" | ENOENT | ReadFails

text \<open>The handler answers, or hands an error on with \<open>next(err)\<close>.\<close>

datatype served = Responded reply | NextError err

text \<open>
  \<open>dirname\<close> is \<open>__dirname\<close>, \<open>disk\<close> the file system, \<open>param\<close> is
  \<open>req.params.filename\<close> (missing on the route \<open>/\<close>). The result holds, beside the
  answer, the paths that were read. The content type of a served file is left out.
\<close>

definition serveStaticFile ::
  "jsstring \<Rightarrow> (jsstring \<Rightarrow> fileRead) \<Rightarrow> jsstring option \<Rightarrow> served \<times> jsstring list" where
  "serveStaticFile dirname disk param =
     (let PUBLIC_DIR = path_join dirname (js ''public'');
          filename = (case param of
                        None \<Rightarrow> js ''index.html''
                      | Some f \<Rightarrow> if f = [] then js ''index.html'' else f);
          filePath = path_join PUBLIC_DIR filename
      in if \<not> startsWith filePath PUBLIC_DIR then
           (Responded (Reply 403 (ErrorOnly ''Forbidden'')), [])
         else (case disk filePath of
                 FileData bytes \<Rightarrow> (Responded (Reply 200 (FileBytes bytes)), [filePath])
               | ENOENT \<Rightarrow> (Responded (Reply 404 (ErrorOnly ''File not found'')), [filePath])
               | ReadFails \<Rightarrow> (NextError FileError, [filePath])))"

text \<open>
  A path lies inside a directory when the directory's segments are the first segments of
  the path's.
\<close>

definition segments :: "jsstring \<Rightarrow> jsstring list" where
  "segments p = filter (\<lambda>s. s \<noteq> []) (splitPath p)"

definition insideDir :: "jsstring \<Rightarrow> jsstring \<Rightarrow> bool" where
  "insideDir dir p = (take (length (segments dir)) (segments p) = segments dir)"

section \<open>Facts about the store operations\<close>

lemma findIndex_None: "findIndex p xs = None \<longleftrightarrow> (\<forall>x \<in> set xs. \<not> p x)"
  by (induction xs) auto

lemma findIndex_Some:
  "findIndex p xs = Some i \<Longrightarrow> i < length xs \<and> p (xs ! i) \<and> (\<forall>j < i. \<not> p (xs ! j))"
proof (induction xs arbitrary: i)
  case Nil
  then show ?case by simp
next
  case (Cons x xs)
  show ?case
  proof (cases "p x")
    case True
    with Cons.prems show ?thesis by simp
  next
    case False
    with Cons.prems obtain i' where i': "findIndex p xs = Some i'" "i = Suc i'"
      by auto
    from Cons.IH [OF i'(1)] False i'(2) show ?thesis
      by (auto simp: nth_Cons split: nat.splits)
  qed
qed

lemma find_append_new:
  "\<forall>x \<in> set xs. \<not> q x \<Longrightarrow> q n \<Longrightarrow> find q (xs @ [n]) = Some n"
  by (induction xs) auto

lemma find_update_new:
  "i < length xs \<Longrightarrow> \<forall>j < i. \<not> q (xs ! j) \<Longrightarrow> q n \<Longrightarrow> find q (xs[i := n]) = Some n"
proof (induction xs arbitrary: i)
  case Nil
  then show ?case by simp
next
  case (Cons x xs)
  show ?case
  proof (cases i)
    case 0
    with Cons.prems show ?thesis by simp
  next
    case (Suc i')
    from Cons.prems Suc have "\<not> q x" by auto
    moreover from Cons.prems Suc have "find q (xs[i' := n]) = Some n"
      by (intro Cons.IH) auto
    ultimately show ?thesis using Suc by simp
  qed
qed

lemma find_new_mapping:
  assumes "key n = q" and "k = q \<or> q \<notin> key ` set ms"
  shows "find (\<lambda>m. key m = q)
           (case findIndex (\<lambda>m. key m = k) ms of Some i \<Rightarrow> ms[i := n] | None \<Rightarrow> ms @ [n])
         = Some n"
proof (cases "findIndex (\<lambda>m. key m = k) ms")
  case None
  then have "\<forall>m \<in> set ms. key m \<noteq> k" by (simp add: findIndex_None)
  with assms(2) have "\<forall>m \<in> set ms. \<not> key m = q" by force
  then have "find (\<lambda>m. key m = q) (ms @ [n]) = Some n"
    by (rule find_append_new) (simp add: assms(1))
  with None show ?thesis by simp
next
  case (Some i)
  from findIndex_Some [OF Some]
  have i: "i < length ms" and before: "\<forall>j < i. key (ms ! j) \<noteq> k" by auto
  have "\<forall>j < i. \<not> key (ms ! j) = q"
  proof (intro allI impI)
    fix j
    assume "j < i"
    with i have "ms ! j \<in> set ms" by simp
    then have "key (ms ! j) \<in> key ` set ms" by (rule imageI)
    with assms(2) before \<open>j < i\<close> show "\<not> key (ms ! j) = q" by auto
  qed
  with i have "find (\<lambda>m. key m = q) (ms[i := n]) = Some n"
    by (rule find_update_new) (simp add: assms(1))
  with Some show ?thesis by simp
qed

lemma find_map_same_key:
  assumes "\<And>x. key (f x) = key x"
  shows "find (\<lambda>m. key m = q) (map f xs) = map_option f (find (\<lambda>m. key m = q) xs)"
  by (induction xs) (simp_all add: assms)

lemma new_mapping_stored:
  "n \<in> set (case findIndex q ms of Some i \<Rightarrow> ms[i := n] | None \<Rightarrow> ms @ [n])"
  by (auto split: option.splits dest: findIndex_Some intro: set_update_memI)

lemma upsert_keeps_keys_distinct:
  assumes "distinct (map key ms)" and "key n = k"
  shows "distinct (map key (case findIndex (\<lambda>m. key m = k) ms of
                              Some i \<Rightarrow> ms[i := n] | None \<Rightarrow> ms @ [n]))"
proof (cases "findIndex (\<lambda>m. key m = k) ms")
  case None
  then have "k \<notin> key ` set ms" by (auto simp: findIndex_None)
  with assms None show ?thesis by simp
next
  case (Some i)
  from findIndex_Some [OF Some] have "i < length ms" and "key (ms ! i) = k" by auto
  with assms(2) have "map key (ms[i := n]) = map key ms"
    by (simp add: map_update list_update_same_conv)
  with assms(1) Some show ?thesis by simp
qed

text \<open>
  A value whose numbers are all finite is written as it is, so a document that is read
  and written again is the same document.
\<close>

lemma stringified_readValue: "stringified (readValue d) = d"
  unfolding readValue_def
  by (induction d) (auto simp: list.map_comp prod.map_comp comp_def intro!: map_idI)

lemma writeMapping_readMapping: "writeMapping (readMapping m) = m"
  by (simp add: writeMapping_def readMapping_def stringified_readValue)

lemma map_writeMapping_readMapping: "map writeMapping (map readMapping ds) = ds"
  by (simp add: writeMapping_readMapping comp_def)

lemma key_readMapping: "key (readMapping m) = key m"
  by (simp add: readMapping_def)

lemma key_writeMapping: "key (writeMapping m) = key m"
  by (simp add: writeMapping_def)

lemma map_key_readMapping: "map key (map readMapping ds) = map key ds"
  by (induction ds) (simp_all add: key_readMapping)

lemma map_key_writeMapping: "map key (map writeMapping ms) = map key ms"
  by (induction ms) (simp_all add: key_writeMapping)

lemma storedDate_readMapping: "storedDate (readMapping m) = storedDate m"
  by (simp add: readMapping_def)

lemma readConfigFile_loaded:
  "readConfigFile w = (Inr ms, w1) \<Longrightarrow>
   \<exists>ds. ms = map readMapping ds \<and> w1 = w\<lparr>cfg := Stored ds\<rparr>"
  by (auto simp: readConfigFile_def writeConfigFile_def split: cfile.splits if_splits)

lemma readConfigFile_Stored:
  "cfg w = Stored ds \<Longrightarrow> readConfigFile w = (Inr (map readMapping ds), w)"
  by (simp add: readConfigFile_def)

lemma readConfigFile_console:
  "readConfigFile w = (r, w1) \<Longrightarrow>
   readConfigFile (w\<lparr>console := c\<rparr>) = (r, w1\<lparr>console := c\<rparr>)"
  by (auto simp: readConfigFile_def writeConfigFile_def split: cfile.splits if_splits)

lemma readConfigFile_initialWorld:
  "readConfigFile initialWorld = (Inr [], initialWorld\<lparr>cfg := Stored []\<rparr>)"
  by (simp add: readConfigFile_def writeConfigFile_def initialWorld_def)

lemma disk_ok_initialWorld: "disk_ok initialWorld"
  by (simp add: initialWorld_def)

lemma cfg_logError: "cfg (logError e w) = cfg w"
  by (simp add: logError_def)

lemma saveMapping_cfg:
  assumes "readConfigFile w = (Inr ms, w1)" and "disk_ok w"
  shows "cfg (snd (saveMapping P now k p w))
         = Stored (map writeMapping
             (case findIndex (\<lambda>m. key m = k) ms of
                Some i \<Rightarrow> ms[i := \<lparr>key = trim k, data = p, storedDate = toISOString P now\<rparr>]
              | None \<Rightarrow> ms @ [\<lparr>key = trim k, data = p, storedDate = toISOString P now\<rparr>]))"
proof -
  from assms(1) obtain ds where w1: "w1 = w\<lparr>cfg := Stored ds\<rparr>"
    by (auto dest: readConfigFile_loaded)
  show ?thesis
    using assms
    by (simp add: saveMapping_def writeConfigFile_def w1 Let_def split: option.splits)
qed

lemma setDynamicConfig_valid:
  assumes "trim k \<noteq> []" and "truthy v" and "parseData P v = Some p"
  shows "setDynamicConfig P now (Some \<lparr>body_key = Some (JStr k), body_data = Some v\<rparr>) w
         = (case saveMapping P now k p (w\<lparr>console := console w @ [RequestInfo]\<rparr>) of
              (Inr r, w1) \<Rightarrow> (r, w1)
            | (Inl e, w1) \<Rightarrow> (saveFailed, logError e w1))"
proof -
  from assms(1) have "k \<noteq> []" by (auto simp: trim_def)
  with assms show ?thesis by (simp add: setDynamicConfig_def putBody_def)
qed

lemma setDynamicConfig_stores:
  assumes "readConfigFile w = (Inr ms, w1)" and "disk_ok w" and "trim k \<noteq> []"
    and "truthy v" and "parseData P v = Some p"
  shows "cfg (snd (setDynamicConfig P now
                 (Some \<lparr>body_key = Some (JStr k), body_data = Some v\<rparr>) w))
         = Stored (map writeMapping
             (case findIndex (\<lambda>m. key m = k) ms of
                Some i \<Rightarrow> ms[i := \<lparr>key = trim k, data = p, storedDate = toISOString P now\<rparr>]
              | None \<Rightarrow> ms @ [\<lparr>key = trim k, data = p, storedDate = toISOString P now\<rparr>]))"
proof -
  let ?w0 = "w\<lparr>console := console w @ [RequestInfo]\<rparr>"
  have r: "readConfigFile ?w0 = (Inr ms, w1\<lparr>console := console w @ [RequestInfo]\<rparr>)"
    using assms(1) by (rule readConfigFile_console)
  have d: "disk_ok ?w0" using assms(2) by simp
  have "cfg (snd (setDynamicConfig P now
                 (Some \<lparr>body_key = Some (JStr k), body_data = Some v\<rparr>) w))
        = cfg (snd (saveMapping P now k p ?w0))"
    by (simp add: setDynamicConfig_valid [OF assms(3-5)] cfg_logError
          split: prod.splits sum.splits)
  then show ?thesis by (simp add: saveMapping_cfg [OF r d])
qed

lemma setDynamicConfig_status:
  assumes "readConfigFile w = (Inr ms, w1)" and "disk_ok w" and "trim k \<noteq> []"
    and "truthy v" and "parseData P v = Some p"
  shows "fst (setDynamicConfig P now
                 (Some \<lparr>body_key = Some (JStr k), body_data = Some v\<rparr>) w)
         = (case encodeURIComponent P (trim k) of
              None \<Rightarrow> saveFailed
            | Some enc \<Rightarrow> Reply 200 (Saved (trim k) (js ''/getData?id='' @ enc)))"
proof -
  let ?w0 = "w\<lparr>console := console w @ [RequestInfo]\<rparr>"
  have r: "readConfigFile ?w0 = (Inr ms, w1\<lparr>console := console w @ [RequestInfo]\<rparr>)"
    using assms(1) by (rule readConfigFile_console)
  from assms(1) obtain ds where "w1 = w\<lparr>cfg := Stored ds\<rparr>"
    by (auto dest: readConfigFile_loaded)
  with assms(2) have "disk_ok w1" by simp
  then show ?thesis
    by (simp add: setDynamicConfig_valid [OF assms(3-5)] saveMapping_def writeConfigFile_def
          r Let_def split: option.splits)
qed

lemma disk_ok_setDynamicConfig: "disk_ok (snd (setDynamicConfig P now req w)) = disk_ok w"
  by (simp add: setDynamicConfig_def putBody_def saveMapping_def readConfigFile_def
        writeConfigFile_def logError_def Let_def
      split: option.splits json.splits cfile.splits prod.splits sum.splits)

lemma getDynamicConfigData_loaded:
  assumes "trim i \<noteq> []" and "cfg w = Stored ds"
  shows "fst (getDynamicConfigData (Some (JStr i)) w)
         = (case find (\<lambda>m. key m = trim i) (map readMapping ds) of
              None \<Rightarrow> dataNotFound
            | Some m \<Rightarrow> Reply 200 (Found (key m) (data m) (storedDate m)))"
proof -
  from assms(1) have "i \<noteq> []" by (auto simp: trim_def)
  with assms show ?thesis
    by (simp add: getDynamicConfigData_def readConfigFile_def split: option.splits)
qed

text \<open>
  With a key that has no white space around it, a put keeps the keys of the document
  distinct: the entry found under the key is overwritten where it stands, and a key that is
  not there yet is added at the end.
\<close>

lemma put_trimmed_key_keeps_keys_distinct:
  assumes "trim k = k" and "k \<noteq> []" and "truthy v" and "parseData P v = Some p"
    and "cfg w = Stored ds" and "disk_ok w" and "distinct (map key ds)"
  shows "\<exists>ds'. cfg (snd (setDynamicConfig P now
                  (Some \<lparr>body_key = Some (JStr k), body_data = Some v\<rparr>) w)) = Stored ds'
               \<and> distinct (map key ds')"
proof -
  from assms(1,2) have t: "trim k \<noteq> []" by simp
  let ?ms = "map readMapping ds"
  let ?n = "\<lparr>key = trim k, data = p, storedDate = toISOString P now\<rparr>"
  from assms(7) have "distinct (map key ?ms)" by (simp only: map_key_readMapping)
  then have "distinct (map key (case findIndex (\<lambda>m. key m = k) ?ms of
          Some i \<Rightarrow> ?ms[i := ?n] | None \<Rightarrow> ?ms @ [?n]))"
    by (rule upsert_keeps_keys_distinct) (simp add: assms(1))
  then have "distinct (map key (map writeMapping (case findIndex (\<lambda>m. key m = k) ?ms of
          Some i \<Rightarrow> ?ms[i := ?n] | None \<Rightarrow> ?ms @ [?n])))"
    by (simp only: map_key_writeMapping)
  then show ?thesis
    by (simp add: setDynamicConfig_stores
          [OF readConfigFile_Stored [OF assms(5)] assms(6) t assms(3,4)])
qed

section \<open>Validation in setDynamicConfig\<close>

text \<open>
  A request whose body no parser read never reaches the validation: destructuring
  \<open>req.body\<close> throws, the error is logged and the answer is status 500. The document is
  left as it was.
\<close>

lemma put_without_body_500:
  "setDynamicConfig P now None w
   = (Reply 500 (Failure ''An error occurred while saving data''),
      logError TypeError (w\<lparr>console := console w @ [RequestInfo]\<rparr>))"
  "cfg (snd (setDynamicConfig P now None w)) = cfg w"
  by (simp_all add: setDynamicConfig_def saveFailed_def cfg_logError)



text \<open>
  The data values 0, false, the empty string and null are falsy: with a valid key each of
  them is answered with status 400, "Data is required", and nothing is stored.
\<close>

theorem put_falsy_data_rejected:
  "setDynamicConfig
     \<lparr>JSON_parse = (\<lambda>s. None), Date_parse = (\<lambda>s. None), toISOString = (\<lambda>t. []),
      encodeURIComponent = Some\<rparr> 0
     (Some \<lparr>body_key = Some (JStr (js ''k'')), body_data = Some (JNum (Finite 0))\<rparr>) initialWorld
   = (Reply 400 (Failure ''Data is required''), initialWorld\<lparr>console := [RequestInfo]\<rparr>)
   \<and> setDynamicConfig
     \<lparr>JSON_parse = (\<lambda>s. None), Date_parse = (\<lambda>s. None), toISOString = (\<lambda>t. []),
      encodeURIComponent = Some\<rparr> 0
     (Some \<lparr>body_key = Some (JStr (js ''k'')), body_data = Some (JBool False)\<rparr>) initialWorld
   = (Reply 400 (Failure ''Data is required''), initialWorld\<lparr>console := [RequestInfo]\<rparr>)
   \<and> setDynamicConfig
     \<lparr>JSON_parse = (\<lambda>s. None), Date_parse = (\<lambda>s. None), toISOString = (\<lambda>t. []),
      encodeURIComponent = Some\<rparr> 0
     (Some \<lparr>body_key = Some (JStr (js ''k'')), body_data = Some (JStr [])\<rparr>) initialWorld
   = (Reply 400 (Failure ''Data is required''), initialWorld\<lparr>console := [RequestInfo]\<rparr>)
   \<and> setDynamicConfig
     \<lparr>JSON_parse = (\<lambda>s. None), Date_parse = (\<lambda>s. None), toISOString = (\<lambda>t. []),
      encodeURIComponent = Some\<rparr> 0
     (Some \<lparr>body_key = Some (JStr (js ''k'')), body_data = Some JNull\<rparr>) initialWorld
   = (Reply 400 (Failure ''Data is required''), initialWorld\<lparr>console := [RequestInfo]\<rparr>)"
  by (simp add: setDynamicConfig_def putBody_def dataRequired_def initialWorld_def
        trim_def js_def isWhiteSpace_def)

text \<open>
  C3. For a request with a valid key, on a document that loads and a disk that takes the
  write: data that is falsy (0, false, the empty string, null) is rejected with "Data is
  required". Truthy data is rejected only when it is a string that JSON.parse rejects, with
  "Invalid JSON data provided". Every other truthy value is accepted: the answer is 200
  with the trimmed key, or 500 when encodeURIComponent throws on the key, and in both
  cases the document holds, under the trimmed key, what JSON.stringify writes for the
  value (for a string, for the value JSON.parse gives for it). That is the value itself
  when all its numbers are finite; an infinite number, as 1e999 parses to, is stored as
  null.
\<close>

theorem put_accepts_truthy_data:
  assumes "trim k \<noteq> []" and "readConfigFile w = (Inr ms, w1)" and "disk_ok w"
  shows "(\<not> truthy v \<longrightarrow>
            fst (setDynamicConfig P now
                   (Some \<lparr>body_key = Some (JStr k), body_data = Some v\<rparr>) w) = dataRequired
            \<and> cfg (snd (setDynamicConfig P now
                   (Some \<lparr>body_key = Some (JStr k), body_data = Some v\<rparr>) w)) = cfg w)
       \<and> (truthy v \<longrightarrow> parseData P v = None \<longrightarrow>
            (\<exists>s. v = JStr s \<and> JSON_parse P s = None)
            \<and> fst (setDynamicConfig P now
                   (Some \<lparr>body_key = Some (JStr k), body_data = Some v\<rparr>) w) = invalidJson
            \<and> cfg (snd (setDynamicConfig P now
                   (Some \<lparr>body_key = Some (JStr k), body_data = Some v\<rparr>) w)) = cfg w)
       \<and> (\<forall>p. truthy v \<longrightarrow> parseData P v = Some p \<longrightarrow>
            (v = p \<or> (\<exists>s. v = JStr s \<and> JSON_parse P s = Some p))
            \<and> fst (setDynamicConfig P now
                   (Some \<lparr>body_key = Some (JStr k), body_data = Some v\<rparr>) w)
              = (case encodeURIComponent P (trim k) of
                   None \<Rightarrow> Reply 500 (Failure ''An error occurred while saving data'')
                 | Some enc \<Rightarrow> Reply 200 (Saved (trim k) (js ''/getData?id='' @ enc)))
            \<and> (\<exists>ds'. cfg (snd (setDynamicConfig P now
                   (Some \<lparr>body_key = Some (JStr k), body_data = Some v\<rparr>) w)) = Stored ds'
                 \<and> \<lparr>key = trim k, data = stringified p, storedDate = toISOString P now\<rparr>
                     \<in> set ds')
            \<and> (\<forall>d. p = readValue d \<longrightarrow> stringified p = d))"
proof (intro conjI allI impI)
  let ?req = "Some \<lparr>body_key = Some (JStr k), body_data = Some v\<rparr>"
  from assms(1) have k: "k \<noteq> []" by (auto simp: trim_def)
  {
    assume "\<not> truthy v"
    with assms(1) k
    show "fst (setDynamicConfig P now ?req w) = dataRequired"
      and "cfg (snd (setDynamicConfig P now ?req w)) = cfg w"
      by (simp_all add: setDynamicConfig_def putBody_def)
  }
  {
    assume "truthy v" and n: "parseData P v = None"
    from n show "\<exists>s. v = JStr s \<and> JSON_parse P s = None" by (cases v) auto
    from \<open>truthy v\<close> n assms(1) k
    show "fst (setDynamicConfig P now ?req w) = invalidJson"
      and "cfg (snd (setDynamicConfig P now ?req w)) = cfg w"
      by (simp_all add: setDynamicConfig_def putBody_def)
  }
  {
    fix p
    assume tv: "truthy v" and p: "parseData P v = Some p"
    from p show "v = p \<or> (\<exists>s. v = JStr s \<and> JSON_parse P s = Some p)" by (cases v) auto
    show "fst (setDynamicConfig P now ?req w)
          = (case encodeURIComponent P (trim k) of
               None \<Rightarrow> Reply 500 (Failure ''An error occurred while saving data'')
             | Some enc \<Rightarrow> Reply 200 (Saved (trim k) (js ''/getData?id='' @ enc)))"
      by (simp add: setDynamicConfig_status [OF assms(2,3,1) tv p] saveFailed_def
            split: option.splits)
    let ?n = "\<lparr>key = trim k, data = p, storedDate = toISOString P now\<rparr>"
    have "writeMapping ?n
          \<in> writeMapping ` set (case findIndex (\<lambda>m. key m = k) ms of
                                  Some i \<Rightarrow> ms[i := ?n] | None \<Rightarrow> ms @ [?n])"
      by (intro imageI new_mapping_stored)
    then show "\<exists>ds'. cfg (snd (setDynamicConfig P now ?req w)) = Stored ds'
                 \<and> \<lparr>key = trim k, data = stringified p, storedDate = toISOString P now\<rparr>
                     \<in> set ds'"
      by (simp add: setDynamicConfig_stores [OF assms(2,3,1) tv p] writeMapping_def)
    {
      fix d
      assume "p = readValue d"
      then show "stringified p = d" by (simp add: stringified_readValue)
    }
  }
qed

theorem put_accepts_truthy_data_witness:
  "setDynamicConfig
       \<lparr>JSON_parse = (\<lambda>s. if s = js ''[1]'' then Some (JArr [JNum (Finite 1)]) else None),
        Date_parse = (\<lambda>s. None), toISOString = (\<lambda>t. js ''T''), encodeURIComponent = Some\<rparr> 7
       (Some \<lparr>body_key = Some (JStr (js ''abc123'')), body_data = Some (JStr (js ''[1]''))\<rparr>)
       initialWorld
   = (Reply 200 (Saved (js ''abc123'') (js ''/getData?id=abc123'')),
      \<lparr>cfg = Stored [\<lparr>key = js ''abc123'', data = JArr [JNum 1], storedDate = js ''T''\<rparr>],
       disk_ok = True, errlog_ok = True, errlog = [], console = [RequestInfo]\<rparr>)
   \<and> setDynamicConfig
       \<lparr>JSON_parse = (\<lambda>s. None),
        Date_parse = (\<lambda>s. None), toISOString = (\<lambda>t. js ''T''), encodeURIComponent = Some\<rparr> 7
       (Some \<lparr>body_key = Some (JStr (js ''abc123'')), body_data = Some (JNum PosInfinity)\<rparr>)
       initialWorld
   = (Reply 200 (Saved (js ''abc123'') (js ''/getData?id=abc123'')),
      \<lparr>cfg = Stored [\<lparr>key = js ''abc123'', data = JNull, storedDate = js ''T''\<rparr>],
       disk_ok = True, errlog_ok = True, errlog = [], console = [RequestInfo]\<rparr>)"
proof -
  let ?P1 = "\<lparr>JSON_parse = (\<lambda>s. if s = js ''[1]'' then Some (JArr [JNum (Finite 1)]) else None),
        Date_parse = (\<lambda>s. None), toISOString = (\<lambda>t. js ''T''), encodeURIComponent = Some\<rparr>"
  let ?P2 = "\<lparr>JSON_parse = (\<lambda>s. None),
        Date_parse = (\<lambda>s. None), toISOString = (\<lambda>t. js ''T''), encodeURIComponent = Some\<rparr>"
  let ?r1 = "setDynamicConfig ?P1 7
       (Some \<lparr>body_key = Some (JStr (js ''abc123'')), body_data = Some (JStr (js ''[1]''))\<rparr>)
       initialWorld"
  let ?r2 = "setDynamicConfig ?P2 7
       (Some \<lparr>body_key = Some (JStr (js ''abc123'')), body_data = Some (JNum PosInfinity)\<rparr>)
       initialWorld"
  have t: "trim (js ''abc123'') \<noteq> []" by (simp add: trim_def js_def isWhiteSpace_def)
  have e1: "?r1 = (Reply 200 (Saved (js ''abc123'') (js ''/getData?id=abc123'')),
      \<lparr>cfg = Stored [\<lparr>key = js ''abc123'', data = JArr [JNum 1], storedDate = js ''T''\<rparr>],
       disk_ok = True, errlog_ok = True, errlog = [], console = [RequestInfo]\<rparr>)"
    by (simp add: setDynamicConfig_def putBody_def saveMapping_def readConfigFile_def
          writeConfigFile_def writeMapping_def initialWorld_def trim_def js_def isWhiteSpace_def)
  have e2: "?r2 = (Reply 200 (Saved (js ''abc123'') (js ''/getData?id=abc123'')),
      \<lparr>cfg = Stored [\<lparr>key = js ''abc123'', data = JNull, storedDate = js ''T''\<rparr>],
       disk_ok = True, errlog_ok = True, errlog = [], console = [RequestInfo]\<rparr>)"
    by (simp add: setDynamicConfig_def putBody_def saveMapping_def readConfigFile_def
          writeConfigFile_def writeMapping_def initialWorld_def trim_def js_def isWhiteSpace_def)
  from put_accepts_truthy_data [OF t readConfigFile_initialWorld disk_ok_initialWorld,
      of "JStr (js ''[1]'')" ?P1 7]
  have "fst ?r1 = Reply 200 (Saved (js ''abc123'') (js ''/getData?id=abc123''))"
    by (simp add: trim_def js_def isWhiteSpace_def)
  moreover
  from put_accepts_truthy_data [OF t readConfigFile_initialWorld disk_ok_initialWorld,
      of "JNum PosInfinity" ?P2 7]
  have "\<exists>ds'. cfg (snd ?r2) = Stored ds'
          \<and> \<lparr>key = js ''abc123'', data = JNull, storedDate = js ''T''\<rparr> \<in> set ds'"
    by (simp add: trim_def js_def isWhiteSpace_def)
  ultimately show ?thesis using e1 e2 by simp
qed

section \<open>The key that is searched and the key that is stored\<close>

text \<open>
  C1. The document holds a Mapping under the key \<open>a\<close> and a put arrives with the key
  \<open>a\<close> surrounded by blanks, which trims to \<open>a\<close>. The search compares with the key as
  received, finds nothing, and the new Mapping is added at the end under the trimmed key:
  the Mapping under \<open>a\<close> is not replaced where it stands, and the document holds two
  Mappings under \<open>a\<close>.
\<close>

theorem put_untrimmed_key_appends_second_mapping:
  "cfg (snd (setDynamicConfig P now
        (Some \<lparr>body_key = Some (JStr (js '' a '')), body_data = Some (JNum (Finite 2))\<rparr>)
        \<lparr>cfg = Stored [\<lparr>key = js ''a'', data = JNum 1, storedDate = d\<rparr>],
         disk_ok = True, errlog_ok = True, errlog = [], console = []\<rparr>))
   = Stored [\<lparr>key = js ''a'', data = JNum 1, storedDate = d\<rparr>,
             \<lparr>key = js ''a'', data = JNum 2, storedDate = toISOString P now\<rparr>]"
proof -
  let ?w = "\<lparr>cfg = Stored [\<lparr>key = js ''a'', data = JNum 1, storedDate = d\<rparr>],
         disk_ok = True, errlog_ok = True, errlog = [], console = []\<rparr>"
  have r: "readConfigFile ?w
           = (Inr (map readMapping [\<lparr>key = js ''a'', data = JNum 1, storedDate = d\<rparr>]), ?w)"
    by (rule readConfigFile_Stored) simp
  have t: "trim (js '' a '') \<noteq> []" by (simp add: trim_def js_def isWhiteSpace_def)
  show ?thesis
    using setDynamicConfig_stores [OF r _ t, of "JNum (Finite 2)" P "JNum (Finite 2)" now]
    by (simp add: readMapping_def writeMapping_def readValue_def trim_def js_def isWhiteSpace_def)
qed

text \<open>
  C2. Starting from a deployment without a document, two puts with the key \<open>a\<close>
  surrounded by blanks leave two Mappings under the key \<open>a\<close>, and a get with that key
  answers with the data of the first put, not of the second.
\<close>

theorem put_twice_untrimmed_key_two_mappings_get_first:
  "cfg (snd (setDynamicConfig P t2
          (Some \<lparr>body_key = Some (JStr (js '' a '')), body_data = Some (JNum (Finite 2))\<rparr>)
          (snd (setDynamicConfig P t1
             (Some \<lparr>body_key = Some (JStr (js '' a '')), body_data = Some (JNum (Finite 1))\<rparr>)
             initialWorld))))
   = Stored [\<lparr>key = js ''a'', data = JNum 1, storedDate = toISOString P t1\<rparr>,
             \<lparr>key = js ''a'', data = JNum 2, storedDate = toISOString P t2\<rparr>]
   \<and> fst (getDynamicConfigData (Some (JStr (js '' a '')))
          (snd (setDynamicConfig P t2
             (Some \<lparr>body_key = Some (JStr (js '' a '')), body_data = Some (JNum (Finite 2))\<rparr>)
             (snd (setDynamicConfig P t1
                (Some \<lparr>body_key = Some (JStr (js '' a '')),
                        body_data = Some (JNum (Finite 1))\<rparr>)
                initialWorld)))))
     = Reply 200 (Found (js ''a'') (JNum (Finite 1)) (toISOString P t1))"
proof -
  let ?w1 = "snd (setDynamicConfig P t1
             (Some \<lparr>body_key = Some (JStr (js '' a '')), body_data = Some (JNum (Finite 1))\<rparr>)
             initialWorld)"
  let ?w2 = "snd (setDynamicConfig P t2
             (Some \<lparr>body_key = Some (JStr (js '' a '')), body_data = Some (JNum (Finite 2))\<rparr>)
             ?w1)"
  have t: "trim (js '' a '') \<noteq> []" by (simp add: trim_def js_def isWhiteSpace_def)
  have c1: "cfg ?w1 = Stored [\<lparr>key = js ''a'', data = JNum 1, storedDate = toISOString P t1\<rparr>]"
    using setDynamicConfig_stores [OF readConfigFile_initialWorld disk_ok_initialWorld t,
        of "JNum (Finite 1)" P "JNum (Finite 1)" t1]
    by (simp add: writeMapping_def trim_def js_def isWhiteSpace_def)
  have d1: "disk_ok ?w1" by (simp add: disk_ok_setDynamicConfig disk_ok_initialWorld)
  have c2: "cfg ?w2 = Stored [\<lparr>key = js ''a'', data = JNum 1, storedDate = toISOString P t1\<rparr>,
             \<lparr>key = js ''a'', data = JNum 2, storedDate = toISOString P t2\<rparr>]"
    using setDynamicConfig_stores [OF readConfigFile_Stored [OF c1] d1 t,
        of "JNum (Finite 2)" P "JNum (Finite 2)" t2]
    by (simp add: readMapping_def writeMapping_def readValue_def trim_def js_def
          isWhiteSpace_def)
  have "fst (getDynamicConfigData (Some (JStr (js '' a ''))) ?w2)
        = Reply 200 (Found (js ''a'') (JNum (Finite 1)) (toISOString P t1))"
    using getDynamicConfigData_loaded [OF t c2]
    by (simp add: readMapping_def readValue_def trim_def js_def isWhiteSpace_def)
  with c2 show ?thesis by simp
qed

section \<open>Put, then get\<close>

text \<open>
  A put of the JSON value null is answered with 400, and the get that follows finds
  nothing under the key.
\<close>

theorem put_null_then_get_not_found:
  "fst (setDynamicConfig
       \<lparr>JSON_parse = (\<lambda>s. None), Date_parse = (\<lambda>s. None), toISOString = (\<lambda>t. []),
        encodeURIComponent = Some\<rparr> 0
       (Some \<lparr>body_key = Some (JStr (js ''k'')), body_data = Some JNull\<rparr>) initialWorld)
   = Reply 400 (Failure ''Data is required'')
   \<and> fst (getDynamicConfigData (Some (JStr (js ''k'')))
        (snd (setDynamicConfig
           \<lparr>JSON_parse = (\<lambda>s. None), Date_parse = (\<lambda>s. None), toISOString = (\<lambda>t. []),
            encodeURIComponent = Some\<rparr> 0
           (Some \<lparr>body_key = Some (JStr (js ''k'')), body_data = Some JNull\<rparr>) initialWorld)))
     = Reply 404 (Failure ''Data not found. Please check the ID and try again.'')"
  by (simp add: setDynamicConfig_def putBody_def getDynamicConfigData_def dataRequired_def
        dataNotFound_def readConfigFile_def writeConfigFile_def initialWorld_def trim_def
        js_def isWhiteSpace_def)

text \<open>
  C4. For a key that is a string and not empty after trimming, and data that is truthy and,
  when it is a string, is accepted by JSON.parse: on a document that loads and a disk that
  takes the write, and when the key has no white space around it or the document holds no
  Mapping under the trimmed key, a put followed by a get with the same key answers 200
  with the trimmed key, the time stamp of the put, and the data as it is read back from
  what JSON.stringify wrote for it (for a string, for the value JSON.parse gives for it).
  That is the data unchanged when all its numbers are finite; an infinite number, as 1e999
  parses to, comes back as null.
\<close>

theorem put_then_get_round_trip:
  assumes "trim k \<noteq> []" and "truthy v" and "parseData P v = Some p"
    and "readConfigFile w = (Inr ms, w1)" and "disk_ok w"
    and "trim k = k \<or> trim k \<notin> key ` set ms"
  shows "fst (getDynamicConfigData (Some (JStr k))
           (snd (setDynamicConfig P now
                   (Some \<lparr>body_key = Some (JStr k), body_data = Some v\<rparr>) w)))
         = Reply 200 (Found (trim k) (readValue (stringified p)) (toISOString P now))
       \<and> (\<forall>d. p = readValue d \<longrightarrow> readValue (stringified p) = p)"
proof
  let ?n = "\<lparr>key = trim k, data = p, storedDate = toISOString P now\<rparr>"
  let ?ms' = "case findIndex (\<lambda>m. key m = k) ms of Some i \<Rightarrow> ms[i := ?n] | None \<Rightarrow> ms @ [?n]"
  have stored: "cfg (snd (setDynamicConfig P now
                  (Some \<lparr>body_key = Some (JStr k), body_data = Some v\<rparr>) w))
                = Stored (map writeMapping ?ms')"
    by (rule setDynamicConfig_stores [OF assms(4,5,1,2,3)])
  from assms(6) have "k = trim k \<or> trim k \<notin> key ` set ms" by auto
  then have "find (\<lambda>m. key m = trim k) ?ms' = Some ?n"
    by (intro find_new_mapping) simp
  then have "find (\<lambda>m. key m = trim k) (map (readMapping \<circ> writeMapping) ?ms')
             = Some (readMapping (writeMapping ?n))"
    by (simp add: find_map_same_key key_readMapping key_writeMapping)
  then show "fst (getDynamicConfigData (Some (JStr k))
           (snd (setDynamicConfig P now
                   (Some \<lparr>body_key = Some (JStr k), body_data = Some v\<rparr>) w)))
         = Reply 200 (Found (trim k) (readValue (stringified p)) (toISOString P now))"
    by (simp add: getDynamicConfigData_loaded [OF assms(1) stored]
          readMapping_def writeMapping_def)
  show "\<forall>d. p = readValue d \<longrightarrow> readValue (stringified p) = p"
    by (simp add: stringified_readValue)
qed

theorem put_then_get_round_trip_witness:
  "fst (getDynamicConfigData (Some (JStr (js ''abc123'')))
     (snd (setDynamicConfig
       \<lparr>JSON_parse = (\<lambda>s. None), Date_parse = (\<lambda>s. None), toISOString = (\<lambda>t. js ''T''),
        encodeURIComponent = Some\<rparr> 7
       (Some \<lparr>body_key = Some (JStr (js ''abc123'')),
              body_data = Some (JObj [(js ''a'', JNum (Finite 1))])\<rparr>) initialWorld)))
   = Reply 200 (Found (js ''abc123'') (JObj [(js ''a'', JNum (Finite 1))]) (js ''T''))
   \<and> fst (getDynamicConfigData (Some (JStr (js ''abc123'')))
     (snd (setDynamicConfig
       \<lparr>JSON_parse = (\<lambda>s. None), Date_parse = (\<lambda>s. None), toISOString = (\<lambda>t. js ''T''),
        encodeURIComponent = Some\<rparr> 7
       (Some \<lparr>body_key = Some (JStr (js ''abc123'')),
              body_data = Some (JArr [JNum PosInfinity])\<rparr>) initialWorld)))
   = Reply 200 (Found (js ''abc123'') (JArr [JNull]) (js ''T''))"
proof -
  let ?P = "\<lparr>JSON_parse = (\<lambda>s. None), Date_parse = (\<lambda>s. None), toISOString = (\<lambda>t. js ''T''),
        encodeURIComponent = Some\<rparr>"
  have t: "trim (js ''abc123'') = js ''abc123''" by (simp add: trim_def js_def isWhiteSpace_def)
  have t0: "trim (js ''abc123'') \<noteq> []" by (simp add: trim_def js_def isWhiteSpace_def)
  show ?thesis
    using put_then_get_round_trip [OF t0 _ _ readConfigFile_initialWorld disk_ok_initialWorld,
        of "JObj [(js ''a'', JNum (Finite 1))]" ?P "JObj [(js ''a'', JNum (Finite 1))]" 7]
      put_then_get_round_trip [OF t0 _ _ readConfigFile_initialWorld disk_ok_initialWorld,
        of "JArr [JNum PosInfinity]" ?P "JArr [JNum PosInfinity]" 7]
    by (simp add: t readValue_def)
qed

section \<open>Looking a key up\<close>

text \<open>
  An id that is not empty but consists of white space only is answered with 400, not with
  404.
\<close>

theorem get_blank_id_bad_request:
  "getDynamicConfigData (Some (JStr (js '' '')))
     \<lparr>cfg = Stored [], disk_ok = True, errlog_ok = True, errlog = [], console = []\<rparr>
   = (Reply 400 (Failure ''Query parameter 'id' is required''),
      \<lparr>cfg = Stored [], disk_ok = True, errlog_ok = True, errlog = [], console = []\<rparr>)"
  by (simp add: getDynamicConfigData_def idRequired_def trim_def js_def isWhiteSpace_def)

text \<open>
  C7. For an id that is a string and not empty after trimming, on a document that loads:
  the get looks for a Mapping whose key equals the trimmed id, code unit by code unit. When
  there is none it answers 404. When there is one it answers 200 with the key, the data
  and the time stamp of the first such Mapping.
\<close>

theorem get_finds_by_trimmed_id:
  assumes "trim i \<noteq> []" and "readConfigFile w = (Inr ms, w1)"
  shows "((\<forall>m \<in> set ms. key m \<noteq> trim i) \<longrightarrow>
            fst (getDynamicConfigData (Some (JStr i)) w)
            = Reply 404 (Failure ''Data not found. Please check the ID and try again.''))
       \<and> ((\<exists>m \<in> set ms. key m = trim i) \<longrightarrow>
            (\<exists>m \<in> set ms. key m = trim i
               \<and> find (\<lambda>m. key m = trim i) ms = Some m
               \<and> fst (getDynamicConfigData (Some (JStr i)) w)
                 = Reply 200 (Found (key m) (data m) (storedDate m))))"
proof -
  from assms(1) have i: "i \<noteq> []" by (auto simp: trim_def)
  have g: "fst (getDynamicConfigData (Some (JStr i)) w)
           = (case find (\<lambda>m. key m = trim i) ms of
                None \<Rightarrow> dataNotFound
              | Some m \<Rightarrow> Reply 200 (Found (key m) (data m) (storedDate m)))"
    using assms i by (simp add: getDynamicConfigData_def split: option.splits)
  show ?thesis
  proof (intro conjI impI)
    assume "\<forall>m \<in> set ms. key m \<noteq> trim i"
    then have "find (\<lambda>m. key m = trim i) ms = None" by (simp add: find_None_iff)
    with g show "fst (getDynamicConfigData (Some (JStr i)) w)
            = Reply 404 (Failure ''Data not found. Please check the ID and try again.'')"
      by (simp add: dataNotFound_def)
  next
    assume "\<exists>m \<in> set ms. key m = trim i"
    then obtain m where m: "find (\<lambda>m. key m = trim i) ms = Some m"
      by (cases "find (\<lambda>m. key m = trim i) ms") (auto simp: find_None_iff)
    then have "m \<in> set ms" and "key m = trim i"
      by (auto simp: find_Some_iff)
    with m g show "\<exists>m \<in> set ms. key m = trim i
               \<and> find (\<lambda>m. key m = trim i) ms = Some m
               \<and> fst (getDynamicConfigData (Some (JStr i)) w)
                 = Reply 200 (Found (key m) (data m) (storedDate m))"
      by auto
  qed
qed

theorem get_finds_by_trimmed_id_witness:
  "fst (getDynamicConfigData (Some (JStr (js ''ABC'')))
     \<lparr>cfg = Stored [\<lparr>key = js ''abc'', data = JNum 1, storedDate = js ''T''\<rparr>],
      disk_ok = True, errlog_ok = True, errlog = [], console = []\<rparr>)
   = Reply 404 (Failure ''Data not found. Please check the ID and try again.'')
   \<and> (\<exists>m \<in> set [\<lparr>key = js ''abc'', data = JNum (Finite 1), storedDate = js ''T''\<rparr>].
        fst (getDynamicConfigData (Some (JStr (js '' abc '')))
          \<lparr>cfg = Stored [\<lparr>key = js ''abc'', data = JNum 1, storedDate = js ''T''\<rparr>],
           disk_ok = True, errlog_ok = True, errlog = [], console = []\<rparr>)
        = Reply 200 (Found (key m) (data m) (storedDate m)))"
proof -
  let ?w = "\<lparr>cfg = Stored [\<lparr>key = js ''abc'', data = JNum 1, storedDate = js ''T''\<rparr>],
      disk_ok = True, errlog_ok = True, errlog = [], console = []\<rparr>"
  have r: "readConfigFile ?w
           = (Inr [\<lparr>key = js ''abc'', data = JNum (Finite 1), storedDate = js ''T''\<rparr>], ?w)"
    by (simp add: readConfigFile_def readMapping_def readValue_def)
  have t1: "trim (js ''ABC'') \<noteq> []" by (simp add: trim_def js_def isWhiteSpace_def)
  have t2: "trim (js '' abc '') \<noteq> []" by (simp add: trim_def js_def isWhiteSpace_def)
  show ?thesis
    using get_finds_by_trimmed_id [OF t1 r] get_finds_by_trimmed_id [OF t2 r]
    by (simp add: trim_def js_def isWhiteSpace_def)
qed

section \<open>The expiry filter\<close>

lemma notDayOld_iff:
  "notDayOld P now m \<longleftrightarrow> (\<exists>t. Date_parse P (storedDate m) = Some t \<and> now - t < 86400000)"
proof (cases "Date_parse P (storedDate m)")
  case None
  then show ?thesis by (simp add: notDayOld_def compareDateInDays_def)
next
  case (Some t)
  have "(of_int (now - t) / 86400000 < (1::rat)) = (of_int (now - t) < (86400000::rat))"
    by (simp add: divide_less_eq)
  also have "\<dots> = (now - t < 86400000)"
    by (simp only: of_int_less_numeral_iff)
  finally show ?thesis using Some
    by (simp add: notDayOld_def compareDateInDays_def)
qed

lemma filterMappings_enumerate:
  "filterMappings P clock i ms
   = map snd (filter (\<lambda>(j, m). notDayOld P (clock j) m) (enumerate i ms))"
  by (induction ms arbitrary: i) simp_all

lemma length_filterMappings: "length (filterMappings P clock i ms) \<le> length ms"
  by (induction ms arbitrary: i) (simp_all add: le_SucI)

lemma filterMappings_same_length:
  "length (filterMappings P clock i ms) = length ms \<Longrightarrow> filterMappings P clock i ms = ms"
proof (induction ms arbitrary: i)
  case Nil
  then show ?case by simp
next
  case (Cons m ms)
  show ?case
  proof (cases "notDayOld P (clock i) m")
    case True
    with Cons show ?thesis by simp
  next
    case False
    with Cons.prems have "length (filterMappings P clock (Suc i) ms) = Suc (length ms)"
      by simp
    with length_filterMappings [of P clock "Suc i" ms] show ?thesis by simp
  qed
qed

lemma filterMappings_member:
  "m \<in> set (filterMappings P clock i ms) \<Longrightarrow> m \<in> set ms \<and> (\<exists>j. notDayOld P (clock j) m)"
  by (induction ms arbitrary: i) (auto split: if_splits)

lemma filterMappings_keeps:
  "m \<in> set ms \<Longrightarrow> \<forall>j. notDayOld P (clock j) m \<Longrightarrow> m \<in> set (filterMappings P clock i ms)"
  by (induction ms arbitrary: i) auto

lemma notDayOld_readMapping: "notDayOld P now (readMapping m) = notDayOld P now m"
  by (simp add: notDayOld_def storedDate_readMapping)

lemma filterMappings_readMapping:
  "filterMappings P clock i (map readMapping ds)
   = map readMapping (filterMappings P clock i ds)"
  by (induction ds arbitrary: i) (simp_all add: notDayOld_readMapping)

lemma removeDayOldData_store:
  assumes "cfg w = Stored ms" and "disk_ok w"
  shows "cfg (snd (removeDayOldData P clock w)) = Stored (filterMappings P clock 0 ms)"
proof (cases "length (filterMappings P clock 0 ms) = length ms")
  case True
  then have "filterMappings P clock 0 ms = ms" by (rule filterMappings_same_length)
  with assms show ?thesis
    by (simp add: removeDayOldData_def cleanUp_def readConfigFile_def Let_def
          filterMappings_readMapping)
next
  case False
  with assms show ?thesis
    by (simp add: removeDayOldData_def cleanUp_def readConfigFile_def writeConfigFile_def
          Let_def filterMappings_readMapping writeMapping_readMapping comp_def)
qed

text \<open>
  C5. On a document that loads and a disk that takes the write, the filter leaves exactly
  the Mappings whose storedDate is a valid date less than one day (86400000 ms) before the
  clock reading taken for them, in their order. A Mapping stored 23 hours before the reading
  stays, one stored 25 hours before it is removed.
\<close>

theorem expiry_filter_keeps_younger_than_one_day:
  assumes "cfg w = Stored ms" and "disk_ok w"
  shows "cfg (snd (removeDayOldData P clock w))
         = Stored (map snd (filter
             (\<lambda>(i, m). \<exists>t. Date_parse P (storedDate m) = Some t
                           \<and> clock i - t < 24 * 60 * 60 * 1000)
             (enumerate 0 ms)))
       \<and> (\<forall>m. ms = [m] \<and> Date_parse P (storedDate m) = Some (clock 0 - 23 * 60 * 60 * 1000)
             \<longrightarrow> cfg (snd (removeDayOldData P clock w)) = Stored [m])
       \<and> (\<forall>m. ms = [m] \<and> Date_parse P (storedDate m) = Some (clock 0 - 25 * 60 * 60 * 1000)
             \<longrightarrow> cfg (snd (removeDayOldData P clock w)) = Stored [])"
proof -
  have s: "cfg (snd (removeDayOldData P clock w)) = Stored (filterMappings P clock 0 ms)"
    using assms by (rule removeDayOldData_store)
  have "filterMappings P clock 0 ms
        = map snd (filter
             (\<lambda>(i, m). \<exists>t. Date_parse P (storedDate m) = Some t
                           \<and> clock i - t < 24 * 60 * 60 * 1000)
             (enumerate 0 ms))"
    by (simp add: filterMappings_enumerate notDayOld_iff)
  moreover have "filterMappings P clock 0 [m] = [m]"
    if "Date_parse P (storedDate m) = Some (clock 0 - 23 * 60 * 60 * 1000)"
    for m :: "rat mapping"
    using that by (simp add: notDayOld_iff)
  moreover have "filterMappings P clock 0 [m] = []"
    if "Date_parse P (storedDate m) = Some (clock 0 - 25 * 60 * 60 * 1000)"
    for m :: "rat mapping"
    using that by (simp add: notDayOld_iff)
  ultimately show ?thesis using s by auto
qed

theorem expiry_filter_keeps_younger_than_one_day_witness:
  "cfg (snd (removeDayOldData
     \<lparr>JSON_parse = (\<lambda>s. None),
      Date_parse = (\<lambda>s. if s = js ''old'' then Some 0 else Some 7200000),
      toISOString = (\<lambda>t. []), encodeURIComponent = Some\<rparr>
     (\<lambda>i. 90000000)
     \<lparr>cfg = Stored [\<lparr>key = js ''a'', data = JNum 1, storedDate = js ''old''\<rparr>,
                    \<lparr>key = js ''b'', data = JNum 2, storedDate = js ''new''\<rparr>],
      disk_ok = True, errlog_ok = True, errlog = [], console = []\<rparr>))
   = Stored [\<lparr>key = js ''b'', data = JNum 2, storedDate = js ''new''\<rparr>]"
  using expiry_filter_keeps_younger_than_one_day
    [of "\<lparr>cfg = Stored [\<lparr>key = js ''a'', data = JNum 1, storedDate = js ''old''\<rparr>,
                    \<lparr>key = js ''b'', data = JNum 2, storedDate = js ''new''\<rparr>],
      disk_ok = True, errlog_ok = True, errlog = [], console = []\<rparr>"
      "[\<lparr>key = js ''a'', data = JNum 1, storedDate = js ''old''\<rparr>,
        \<lparr>key = js ''b'', data = JNum 2, storedDate = js ''new''\<rparr>]"
      "\<lparr>JSON_parse = (\<lambda>s. None),
      Date_parse = (\<lambda>s. if s = js ''old'' then Some 0 else Some 7200000),
      toISOString = (\<lambda>t. []), encodeURIComponent = Some\<rparr>"
      "\<lambda>i. 90000000"]
  by (simp add: js_def enumerate_eq_zip upt_rec)

text \<open>
  C10. On a document that loads and a disk that takes the write: a Mapping whose storedDate
  is not a valid date has the age NaN at every clock reading and is not in the document
  after the filter; a Mapping whose storedDate is later than every clock reading of the
  pass is still there.
\<close>

theorem expiry_filter_unparsable_removed_future_kept:
  assumes "cfg w = Stored ms" and "disk_ok w"
  shows "\<exists>ms'. cfg (snd (removeDayOldData P clock w)) = Stored ms'
           \<and> (\<forall>m \<in> set ms. Date_parse P (storedDate m) = None \<longrightarrow>
                 (\<forall>now. compareDateInDays P now (storedDate m) = None) \<and> m \<notin> set ms')
           \<and> (\<forall>m \<in> set ms. \<forall>t. Date_parse P (storedDate m) = Some t \<and> (\<forall>i. clock i < t) \<longrightarrow>
                 m \<in> set ms')"
proof (intro exI conjI ballI allI impI)
  show "cfg (snd (removeDayOldData P clock w)) = Stored (filterMappings P clock 0 ms)"
    using assms by (rule removeDayOldData_store)
next
  fix m :: "rat mapping" and now
  assume "Date_parse P (storedDate m) = None"
  then show "compareDateInDays P now (storedDate m) = None"
    by (simp add: compareDateInDays_def)
next
  fix m :: "rat mapping"
  assume "Date_parse P (storedDate m) = None"
  then have "\<not> notDayOld P now m" for now by (simp add: notDayOld_iff)
  then show "m \<notin> set (filterMappings P clock 0 ms)"
    by (auto dest: filterMappings_member)
next
  fix m :: "rat mapping" and t
  assume m: "m \<in> set ms" and "Date_parse P (storedDate m) = Some t \<and> (\<forall>i. clock i < t)"
  then have t: "Date_parse P (storedDate m) = Some t" and f: "\<And>i. clock i < t" by auto
  have "notDayOld P (clock j) m" for j
    using t f [of j] by (simp add: notDayOld_iff)
  with m show "m \<in> set (filterMappings P clock 0 ms)"
    by (simp add: filterMappings_keeps)
qed

theorem expiry_filter_unparsable_removed_future_kept_witness:
  "cfg (snd (removeDayOldData
     \<lparr>JSON_parse = (\<lambda>s. None),
      Date_parse = (\<lambda>s. if s = js ''soon'' then Some 5000 else None),
      toISOString = (\<lambda>t. []), encodeURIComponent = Some\<rparr>
     (\<lambda>i. 1000)
     \<lparr>cfg = Stored [\<lparr>key = js ''a'', data = JNum 1, storedDate = js ''garbage''\<rparr>,
                    \<lparr>key = js ''b'', data = JNum 2, storedDate = js ''soon''\<rparr>],
      disk_ok = True, errlog_ok = True, errlog = [], console = []\<rparr>))
   = Stored [\<lparr>key = js ''b'', data = JNum 2, storedDate = js ''soon''\<rparr>]"
proof -
  let ?P = "\<lparr>JSON_parse = (\<lambda>s. None),
      Date_parse = (\<lambda>s. if s = js ''soon'' then Some 5000 else None),
      toISOString = (\<lambda>t. []), encodeURIComponent = Some\<rparr>"
  let ?a = "\<lparr>key = js ''a'', data = JNum 1, storedDate = js ''garbage''\<rparr>"
  let ?b = "\<lparr>key = js ''b'', data = JNum 2, storedDate = js ''soon''\<rparr>"
  let ?w = "\<lparr>cfg = Stored [?a, ?b],
      disk_ok = True, errlog_ok = True, errlog = [], console = []\<rparr>"
  from expiry_filter_unparsable_removed_future_kept [of ?w "[?a, ?b]" ?P "\<lambda>i. 1000"]
  obtain ms' where s: "cfg (snd (removeDayOldData ?P (\<lambda>i. 1000) ?w)) = Stored ms'"
    and "?a \<notin> set ms'" and "?b \<in> set ms'"
    by (auto simp: js_def)
  moreover have "cfg (snd (removeDayOldData ?P (\<lambda>i. 1000) ?w)) = Stored [?b]"
    by (simp add: removeDayOldData_def cleanUp_def readConfigFile_def writeConfigFile_def
          notDayOld_def compareDateInDays_def readMapping_def writeMapping_def readValue_def
          js_def)
  ultimately show ?thesis by simp
qed



section \<open>The guard of the static-file handler\<close>

text \<open>
  The guard answers 403 for a path that leaves through the parent directory, and a file
  that is absent inside the public directory is answered with 404.
\<close>

lemma static_file_guard_examples:
  "serveStaticFile (js ''/app'') (\<lambda>p. FileData [1]) (Some (js ''../../etc/passwd''))
   = (Responded (Reply 403 (ErrorOnly ''Forbidden'')), [])"
  "serveStaticFile (js ''/app'') (\<lambda>p. ENOENT) (Some (js ''missing.html''))
   = (Responded (Reply 404 (ErrorOnly ''File not found'')), [js ''/app/public/missing.html''])"
  "serveStaticFile (js ''/app'')
     (\<lambda>p. if p = js ''/app/public/index.html'' then FileData [60] else ENOENT) None
   = (Responded (Reply 200 (FileBytes [60])), [js ''/app/public/index.html''])"
  by (simp_all add: js_def slash_def normalize_def path_join_def startsWith_def
        serveStaticFile_def Let_def)

text \<open>
  C9. With the public directory \<open>/app/public\<close>, the file name
  \<open>../public-old/db.json\<close> resolves to \<open>/app/public-old/db.json\<close>, which is outside
  the public directory. As a string it starts with \<open>/app/public\<close>, so the guard lets it
  pass: the file is read and served with status 200, not refused with 403.
\<close>

theorem static_file_sibling_directory_served:
  "path_join (js ''/app'') (js ''public'') = js ''/app/public''
   \<and> path_join (js ''/app/public'') (js ''../public-old/db.json'') = js ''/app/public-old/db.json''
   \<and> \<not> insideDir (js ''/app/public'') (js ''/app/public-old/db.json'')
   \<and> serveStaticFile (js ''/app'')
         (\<lambda>p. if p = js ''/app/public-old/db.json'' then FileData [1, 2, 3] else ENOENT)
         (Some (js ''../public-old/db.json''))
       = (Responded (Reply 200 (FileBytes [1, 2, 3])), [js ''/app/public-old/db.json''])"
  by (simp add: js_def slash_def normalize_def path_join_def startsWith_def segments_def
        insideDir_def serveStaticFile_def Let_def)

end
